theory Spec2Isabelle
  imports Main "HOL-Library.Word" "HOL-Library.Sublist"
begin

section \<open>Values, errors and the standard library\<close>

text \<open>
  golloom is a client of one remote HTTP API. Every method of \<open>Client\<close> encodes its
  argument, builds one request, hands it to \<open>c.HTTPClient.Do\<close> and decodes the answer.
  The packages it calls (\<open>encoding/json\<close>, \<open>net/url\<close>, \<open>net/http\<close>, \<open>path\<close>)
  are not part of the repository: they are parameters of the model, collected in the
  record \<open>golib\<close>, and the network with the remote server is the parameter \<open>T\<close>
  of every operation. Theorems hold for every library and every server.
\<close>

type_synonym bytes = string

text \<open>A value held in an \<open>interface{}\<close>, by its dynamic type.\<close>

datatype goval =
    GoNil
  | GoString string
  | GoInt int
  | GoBool bool
  | GoIntSlice "int list"
  | GoIfaceSlice "goval list"
  | GoStringMap "(string \<times> string) list"
  | GoIfaceMap "(string \<times> goval) list"
  | GoOther string

text \<open>
  Errors. \<open>LibError\<close> is an error made by a standard-library call; the others are
  the \<open>fmt.Errorf\<close> calls of the repository, with the arguments of the format.
\<close>

datatype error =
    LibError string
  | HTTPStatusError int bytes
  | StreamDecodeError error
  | StreamExceeded
  | InvalidFormatType
  | InvalidContextIndex nat
  | InvalidContextType
  | InvalidDigest string
  | UnexpectedStatus int
  | PushBlobFailed bytes

datatype go_context = NilContext | Context string

record request =
  Ctx :: go_context
  Method :: string
  URL :: string
  Header :: "(string \<times> string) list"
  ReqBody :: "bytes option"

record response =
  StatusCode :: int
  Body :: bytes

record http_Client =
  Timeout :: "64 word"

record 'u Client =
  BaseURL :: 'u
  HTTPClient :: http_Client

text \<open>
  The store: the \<open>Client\<close> object behind the receiver pointer \<open>c\<close>, and the requests
  handed to \<open>c.HTTPClient.Do\<close> so far, oldest first.
\<close>

record 'u world =
  client :: "'u Client"
  wire :: "request list"

type_synonym transport = "http_Client \<Rightarrow> request \<Rightarrow> error + response"


subsection \<open>The request and result structs of the repository\<close>

text \<open>
  \<open>time.Time\<close> is kept as the instant it denotes. \<open>Message\<close> (an element of
  \<open>CreateModelRequest.Messages\<close>), the request struct \<open>Chat\<close> and \<open>ModelResponse\<close> are
  declared in a file that is not among the sources: they are the type variables
  \<open>'m\<close>, \<open>'c\<close> and \<open>'r\<close>.
\<close>

datatype Time = Instant int

record PromptInfo =
  pi_Model :: string
  pi_Prompt :: string
  pi_Suffix :: string
  pi_System :: string
  pi_Template :: string
  pi_Images :: "string list"
  pi_Format :: goval
  pi_Options :: "(string \<times> goval) list"
  pi_Stream :: "bool option"
  pi_Raw :: "bool option"
  pi_KeepAlive :: string
  pi_Context :: goval

record PromptResult =
  pr_Model :: string
  pr_Response :: string
  pr_CreatedAt :: Time
  pr_Context :: goval
  pr_Done :: bool
  pr_DoneReason :: string
  pr_TotalDuration :: "64 word"
  pr_LoadDuration :: "64 word"
  pr_PromptEvalCount :: int
  pr_PromptEvalDuration :: "64 word"
  pr_EvalCount :: int
  pr_EvalDuration :: "64 word"

record DeleteModelRequest =
  dm_Model :: string

record 'm CreateModelRequest =
  cm_Model :: string
  cm_From :: string
  cm_Files :: "(string \<times> string) list"
  cm_Adapters :: "(string \<times> string) list"
  cm_Template :: string
  cm_License :: goval
  cm_System :: string
  cm_Parameters :: "(string \<times> goval) list"
  cm_Messages :: "'m list"
  cm_Stream :: "bool option"
  cm_Quantize :: string

record ModelInfoResult =
  mi_Modelfile :: string
  mi_Parameters :: string
  mi_Template :: string
  mi_Details :: "(string \<times> goval) list"
  mi_ModelInfo :: "(string \<times> goval) list"

record EmbedResult =
  er_Model :: string
  er_CreatedAt :: Time
  er_Embedding :: goval

record ModelDetails =
  md_Format :: string
  md_Family :: string
  md_Families :: "string list"
  md_ParameterSize :: string
  md_QuantizationLevel :: string

record ModelInfo =
  mo_Name :: string
  mo_ModifiedAt :: Time
  mo_Size :: "64 word"
  mo_Digest :: string
  mo_Details :: ModelDetails

record ModelList =
  ml_Models :: "ModelInfo list"

record Version =
  v_Version :: string
  v_BuildTime :: string

record ModelProcessStatus =
  ps_Models :: "string list"

record PullModelResult =
  pull_StatusMessages :: "string list"

record PushModelResult =
  push_StatusMessages :: "string list"

record CopyModelResult =
  copy_StatusMessages :: "string list"

record DeleteModelResult =
  delete_StatusMessages :: "string list"

record CreateModelResult =
  create_StatusMessages :: "string list"

text \<open>
  The argument \<open>body interface{}\<close> of the \<open>send...\<close> helpers, by the dynamic types
  their callers pass.
\<close>

datatype ('m, 'c) payload =
    MapStringString "(string \<times> string) list"
  | MapStringIface "(string \<times> goval) list"
  | PromptInfoPtr PromptInfo
  | DeleteModelRequestPtr DeleteModelRequest
  | CreateModelRequestPtr "'m CreateModelRequest"
  | ChatPtr 'c

subsection \<open>The standard library\<close>

text \<open>
  \<open>url_Path p\<close> is the literal \<open>&url.URL{Path: p}\<close>. \<open>request_check\<close> is the
  validation of \<open>http.NewRequestWithContext\<close> (method, context, URL), \<open>None\<close> when it
  passes. A \<open>json.Decoder\<close> is the bytes it has not consumed yet: \<open>More\<close> is
  \<open>dec.More()\<close>, and \<open>Decode_X\<close> is \<open>dec.Decode(&x)\<close> for \<open>x\<close> of type \<open>X\<close>,
  giving the decoded value and the decoder after the call. \<open>Decode_Status\<close> decodes
  into the local \<open>struct { Status string `json:"status"` }\<close>, given as its one field.
\<close>

record ('u, 'm, 'c, 'r) golib =
  url_Parse :: "string \<Rightarrow> error + 'u"
  url_Path :: "string \<Rightarrow> 'u"
  ResolveReference :: "'u \<Rightarrow> 'u \<Rightarrow> 'u"
  url_String :: "'u \<Rightarrow> string"
  PathEscape :: "string \<Rightarrow> string"
  path_Join :: "string \<Rightarrow> string \<Rightarrow> string"
  request_check :: "go_context \<Rightarrow> string \<Rightarrow> string \<Rightarrow> error option"
  json_Encode :: "('m, 'c) payload \<Rightarrow> error + bytes"
  More :: "bytes \<Rightarrow> bool"
  Decode_Status :: "bytes \<Rightarrow> error + (string \<times> bytes)"
  Decode_PromptResult :: "bytes \<Rightarrow> error + (PromptResult \<times> bytes)"
  Decode_ModelResponse :: "bytes \<Rightarrow> error + ('r \<times> bytes)"
  Decode_ModelInfoResult :: "bytes \<Rightarrow> error + (ModelInfoResult \<times> bytes)"
  Decode_EmbedResult :: "bytes \<Rightarrow> error + (EmbedResult \<times> bytes)"
  Decode_ModelList :: "bytes \<Rightarrow> error + (ModelList \<times> bytes)"
  Decode_Version :: "bytes \<Rightarrow> error + (Version \<times> bytes)"
  Decode_ModelProcessStatus :: "bytes \<Rightarrow> error + (ModelProcessStatus \<times> bytes)"

definition NewRequestWithContext ::
  "('u, 'm, 'c, 'r) golib \<Rightarrow> go_context \<Rightarrow> string \<Rightarrow> string \<Rightarrow> bytes option
     \<Rightarrow> error + request" where
  "NewRequestWithContext L ctx method urlStr body =
     (case request_check L ctx method urlStr of
        Some err \<Rightarrow> Inl err
      | None \<Rightarrow>
          Inr \<lparr>Ctx = ctx, Method = (if method = [] then ''GET'' else method),
               URL = urlStr, Header = [], ReqBody = body\<rparr>)"

definition Header_Set :: "request \<Rightarrow> string \<Rightarrow> string \<Rightarrow> request" where
  "Header_Set req k v = req\<lparr>Header := (k, v) # filter (\<lambda>kv. fst kv \<noteq> k) (Header req)\<rparr>"

text \<open>\<open>c.HTTPClient.Do(req)\<close>: the request goes on the wire, the server answers.\<close>

definition Do :: "transport \<Rightarrow> request \<Rightarrow> 'u world \<Rightarrow> (error + response) \<times> 'u world" where
  "Do T req w = (T (HTTPClient (client w)) req, w\<lparr>wire := wire w @ [req]\<rparr>)"

section \<open>helper.go\<close>

subsection \<open>sendStatusStreamRequest\<close>

definition maxMessages :: nat where
  "maxMessages = 1000"

text \<open>
  The loop \<open>for dec.More() && len(msgs) < maxMessages\<close>. \<open>Inl\<close> is the return from
  inside the loop; \<open>Inr\<close> is \<open>msgs\<close> when the loop ends.
\<close>

function stream_loop ::
  "('u, 'm, 'c, 'r) golib \<Rightarrow> nat \<Rightarrow> bytes \<Rightarrow> string list \<Rightarrow> error + string list" where
  "stream_loop L mx dec msgs =
     (if More L dec \<and> length msgs < mx then
        (case Decode_Status L dec of
           Inl err \<Rightarrow> Inl (StreamDecodeError err)
         | Inr (s, dec') \<Rightarrow> stream_loop L mx dec' (msgs @ [s]))
      else Inr msgs)"
  by pat_completeness auto
termination
  by (relation "measure (\<lambda>(L, mx, dec, msgs). mx - length msgs)") auto

declare stream_loop.simps [simp del]

definition sendStatusStreamRequest ::
  "('u, 'm, 'c, 'r) golib \<Rightarrow> transport \<Rightarrow> go_context \<Rightarrow> string \<Rightarrow> string
     \<Rightarrow> ('m, 'c) payload \<Rightarrow> 'u world \<Rightarrow> (error + string list) \<times> 'u world" where
  "sendStatusStreamRequest L T ctx method urlStr body w =
     (case json_Encode L body of
        Inl err \<Rightarrow> (Inl err, w)
      | Inr buf \<Rightarrow>
          (case NewRequestWithContext L ctx method urlStr (Some buf) of
             Inl err \<Rightarrow> (Inl err, w)
           | Inr req \<Rightarrow>
               (case Do T (Header_Set req ''Content-Type'' ''application/json'') w of
                  (Inl err, w') \<Rightarrow> (Inl err, w')
                | (Inr resp, w') \<Rightarrow>
                    if StatusCode resp < 200 \<or> StatusCode resp \<ge> 300 then
                      (Inl (HTTPStatusError (StatusCode resp) (take 512 (Body resp))), w')
                    else
                      (case stream_loop L maxMessages (Body resp) [] of
                         Inl err \<Rightarrow> (Inl err, w')
                       | Inr msgs \<Rightarrow>
                           if length msgs \<ge> maxMessages then (Inl StreamExceeded, w')
                           else (Inr msgs, w')))))"

subsection \<open>sendRequest and its three copies\<close>

definition sendRequest ::
  "('u, 'm, 'c, 'r) golib \<Rightarrow> transport \<Rightarrow> go_context \<Rightarrow> string \<Rightarrow> string
     \<Rightarrow> ('m, 'c) payload \<Rightarrow> 'u world \<Rightarrow> (error + PromptResult) \<times> 'u world" where
  "sendRequest L T ctx method urlStr body w =
     (case json_Encode L body of
        Inl err \<Rightarrow> (Inl err, w)
      | Inr buf \<Rightarrow>
          (case NewRequestWithContext L ctx method urlStr (Some buf) of
             Inl err \<Rightarrow> (Inl err, w)
           | Inr req \<Rightarrow>
               (case Do T (Header_Set req ''Content-Type'' ''application/json'') w of
                  (Inl err, w') \<Rightarrow> (Inl err, w')
                | (Inr resp, w') \<Rightarrow>
                    if StatusCode resp < 200 \<or> StatusCode resp \<ge> 300 then
                      (Inl (HTTPStatusError (StatusCode resp) (Body resp)), w')
                    else
                      (case Decode_PromptResult L (Body resp) of
                         Inl err \<Rightarrow> (Inl err, w')
                       | Inr (genResp, dec') \<Rightarrow> (Inr genResp, w')))))"

definition sendChatRequest ::
  "('u, 'm, 'c, 'r) golib \<Rightarrow> transport \<Rightarrow> go_context \<Rightarrow> string \<Rightarrow> string
     \<Rightarrow> ('m, 'c) payload \<Rightarrow> 'u world \<Rightarrow> (error + 'r) \<times> 'u world" where
  "sendChatRequest L T ctx method urlStr body w =
     (case json_Encode L body of
        Inl err \<Rightarrow> (Inl err, w)
      | Inr buf \<Rightarrow>
          (case NewRequestWithContext L ctx method urlStr (Some buf) of
             Inl err \<Rightarrow> (Inl err, w)
           | Inr req \<Rightarrow>
               (case Do T (Header_Set req ''Content-Type'' ''application/json'') w of
                  (Inl err, w') \<Rightarrow> (Inl err, w')
                | (Inr resp, w') \<Rightarrow>
                    (case Decode_ModelResponse L (Body resp) of
                       Inl err \<Rightarrow> (Inl err, w')
                     | Inr (chatResp, dec') \<Rightarrow> (Inr chatResp, w')))))"

definition sendShowRequest ::
  "('u, 'm, 'c, 'r) golib \<Rightarrow> transport \<Rightarrow> go_context \<Rightarrow> string \<Rightarrow> string
     \<Rightarrow> ('m, 'c) payload \<Rightarrow> 'u world \<Rightarrow> (error + ModelInfoResult) \<times> 'u world" where
  "sendShowRequest L T ctx method urlStr body w =
     (case json_Encode L body of
        Inl err \<Rightarrow> (Inl err, w)
      | Inr buf \<Rightarrow>
          (case NewRequestWithContext L ctx method urlStr (Some buf) of
             Inl err \<Rightarrow> (Inl err, w)
           | Inr req \<Rightarrow>
               (case Do T (Header_Set req ''Content-Type'' ''application/json'') w of
                  (Inl err, w') \<Rightarrow> (Inl err, w')
                | (Inr resp, w') \<Rightarrow>
                    (case Decode_ModelInfoResult L (Body resp) of
                       Inl err \<Rightarrow> (Inl err, w')
                     | Inr (showResp, dec') \<Rightarrow> (Inr showResp, w')))))"

definition sendEmbedRequest ::
  "('u, 'm, 'c, 'r) golib \<Rightarrow> transport \<Rightarrow> go_context \<Rightarrow> string \<Rightarrow> string
     \<Rightarrow> ('m, 'c) payload \<Rightarrow> 'u world \<Rightarrow> (error + EmbedResult) \<times> 'u world" where
  "sendEmbedRequest L T ctx method urlStr body w =
     (case json_Encode L body of
        Inl err \<Rightarrow> (Inl err, w)
      | Inr buf \<Rightarrow>
          (case NewRequestWithContext L ctx method urlStr (Some buf) of
             Inl err \<Rightarrow> (Inl err, w)
           | Inr req \<Rightarrow>
               (case Do T (Header_Set req ''Content-Type'' ''application/json'') w of
                  (Inl err, w') \<Rightarrow> (Inl err, w')
                | (Inr resp, w') \<Rightarrow>
                    (case Decode_EmbedResult L (Body resp) of
                       Inl err \<Rightarrow> (Inl err, w')
                     | Inr (embedResp, dec') \<Rightarrow> (Inr embedResp, w')))))"

section \<open>client.go\<close>

text \<open>\<open>time.Minute\<close>, in nanoseconds; a \<open>time.Duration\<close> is an \<open>int64\<close>.\<close>

definition Minute :: "64 word" where
  "Minute = 60000000000"

definition NewClient ::
  "('u, 'm, 'c, 'r) golib \<Rightarrow> string \<Rightarrow> 64 word \<Rightarrow> error + 'u Client" where
  "NewClient L baseURL minutes =
     (case url_Parse L baseURL of
        Inl err \<Rightarrow> Inl err
      | Inr parsed \<Rightarrow>
          Inr \<lparr>BaseURL = parsed, HTTPClient = \<lparr>Timeout = minutes * Minute\<rparr>\<rparr>)"

section \<open>The model lifecycle operations\<close>

definition PullModel ::
  "('u, 'm, 'c, 'r) golib \<Rightarrow> transport \<Rightarrow> go_context \<Rightarrow> string \<Rightarrow> 'u world
     \<Rightarrow> (error + PullModelResult) \<times> 'u world" where
  "PullModel L T ctx model w =
     (let rel = url_Path L ''/api/pull'';
          u = ResolveReference L (BaseURL (client w)) rel
      in case sendStatusStreamRequest L T ctx ''POST'' (url_String L u)
                (MapStringString [(''model'', model)]) w of
           (Inl err, w') \<Rightarrow> (Inl err, w')
         | (Inr res, w') \<Rightarrow> (Inr \<lparr>pull_StatusMessages = res\<rparr>, w'))"

definition PushModel ::
  "('u, 'm, 'c, 'r) golib \<Rightarrow> transport \<Rightarrow> go_context \<Rightarrow> string \<Rightarrow> 'u world
     \<Rightarrow> (error + PushModelResult) \<times> 'u world" where
  "PushModel L T ctx model w =
     (let rel = url_Path L ''/api/push'';
          u = ResolveReference L (BaseURL (client w)) rel
      in case sendStatusStreamRequest L T ctx ''POST'' (url_String L u)
                (MapStringIface [(''model'', GoString model)]) w of
           (Inl err, w') \<Rightarrow> (Inl err, w')
         | (Inr res, w') \<Rightarrow> (Inr \<lparr>push_StatusMessages = res\<rparr>, w'))"

definition CopyModel ::
  "('u, 'm, 'c, 'r) golib \<Rightarrow> transport \<Rightarrow> go_context \<Rightarrow> string \<Rightarrow> string \<Rightarrow> 'u world
     \<Rightarrow> (error + CopyModelResult) \<times> 'u world" where
  "CopyModel L T ctx source destination w =
     (let rel = url_Path L ''/api/copy'';
          u = ResolveReference L (BaseURL (client w)) rel
      in case sendStatusStreamRequest L T ctx ''POST'' (url_String L u)
                (MapStringString [(''source'', source), (''destination'', destination)]) w of
           (Inl err, w') \<Rightarrow> (Inl err, w')
         | (Inr res, w') \<Rightarrow> (Inr \<lparr>copy_StatusMessages = res\<rparr>, w'))"

definition DeleteModel ::
  "('u, 'm, 'c, 'r) golib \<Rightarrow> transport \<Rightarrow> go_context \<Rightarrow> DeleteModelRequest \<Rightarrow> 'u world
     \<Rightarrow> (error + DeleteModelResult) \<times> 'u world" where
  "DeleteModel L T ctx req w =
     (let rel = url_Path L ''/api/delete'';
          u = ResolveReference L (BaseURL (client w)) rel
      in case sendStatusStreamRequest L T ctx ''POST'' (url_String L u)
                (DeleteModelRequestPtr req) w of
           (Inl err, w') \<Rightarrow> (Inl err, w')
         | (Inr res, w') \<Rightarrow> (Inr \<lparr>delete_StatusMessages = res\<rparr>, w'))"

definition CreateModel ::
  "('u, 'm, 'c, 'r) golib \<Rightarrow> transport \<Rightarrow> go_context \<Rightarrow> 'm CreateModelRequest \<Rightarrow> 'u world
     \<Rightarrow> (error + CreateModelResult) \<times> 'u world" where
  "CreateModel L T ctx req w =
     (let rel = url_Path L ''/api/create'';
          u = ResolveReference L (BaseURL (client w)) rel
      in case sendStatusStreamRequest L T ctx ''POST'' (url_String L u)
                (CreateModelRequestPtr req) w of
           (Inl err, w') \<Rightarrow> (Inl err, w')
         | (Inr res, w') \<Rightarrow> (Inr \<lparr>create_StatusMessages = res\<rparr>, w'))"

section \<open>Inference\<close>

text \<open>The loop over a \<open>[]interface{}\<close> in \<open>ValidatePromptInfo\<close>, from index \<open>idx\<close> on.\<close>

fun check_ints :: "nat \<Rightarrow> goval list \<Rightarrow> error option" where
  "check_ints idx [] = None"
| "check_ints idx (v # vs) =
     (case v of
        GoInt i \<Rightarrow> check_ints (Suc idx) vs
      | _ \<Rightarrow> Some (InvalidContextIndex idx))"

text \<open>\<open>None\<close> is the \<open>nil\<close> error.\<close>

definition ValidatePromptInfo :: "PromptInfo \<Rightarrow> error option" where
  "ValidatePromptInfo req =
     (case (if pi_Format req \<noteq> GoNil then
              (case pi_Format req of
                 GoString s \<Rightarrow> None
               | GoIfaceMap m \<Rightarrow> None
               | _ \<Rightarrow> Some InvalidFormatType)
            else None) of
        Some err \<Rightarrow> Some err
      | None \<Rightarrow>
          (if pi_Context req \<noteq> GoNil then
             (case pi_Context req of
                GoIntSlice xs \<Rightarrow> None
              | GoIfaceSlice ctx \<Rightarrow> check_ints 0 ctx
              | _ \<Rightarrow> Some InvalidContextType)
           else None))"

definition Generate ::
  "('u, 'm, 'c, 'r) golib \<Rightarrow> transport \<Rightarrow> go_context \<Rightarrow> PromptInfo \<Rightarrow> 'u world
     \<Rightarrow> (error + PromptResult) \<times> 'u world" where
  "Generate L T ctx req w =
     (case ValidatePromptInfo req of
        Some err \<Rightarrow> (Inl err, w)
      | None \<Rightarrow>
          (let rel = url_Path L ''/api/generate'';
               u = ResolveReference L (BaseURL (client w)) rel
           in sendRequest L T ctx ''POST'' (url_String L u) (PromptInfoPtr req) w))"

definition Embed ::
  "('u, 'm, 'c, 'r) golib \<Rightarrow> transport \<Rightarrow> go_context \<Rightarrow> string \<Rightarrow> string
     \<Rightarrow> (string \<times> goval) list \<Rightarrow> 'u world \<Rightarrow> (error + EmbedResult) \<times> 'u world" where
  "Embed L T ctx model input options w =
     (let rel = url_Path L ''/api/embed'';
          u = ResolveReference L (BaseURL (client w)) rel
      in sendEmbedRequest L T ctx ''POST'' (url_String L u)
           (MapStringIface
              [(''model'', GoString model), (''input'', GoString input),
               (''options'', GoIfaceMap options)]) w)"

definition FetchModelInfo ::
  "('u, 'm, 'c, 'r) golib \<Rightarrow> transport \<Rightarrow> go_context \<Rightarrow> string \<Rightarrow> bool \<Rightarrow> 'u world
     \<Rightarrow> (error + ModelInfoResult) \<times> 'u world" where
  "FetchModelInfo L T ctx model verbose w =
     (let rel = url_Path L ''/api/show'';
          u = ResolveReference L (BaseURL (client w)) rel
      in sendShowRequest L T ctx ''POST'' (url_String L u)
           (MapStringIface [(''model'', GoString model), (''verbose'', GoBool verbose)]) w)"

text \<open>
  Modelled from the spec: the method \<open>Chat\<close> of \<open>Client\<close> is called by the examples
  but its file is not among the sources; only its helper \<open>sendChatRequest\<close> is. The
  spec lists chat among the inference operations and says of every operation that it is
  "a direct mapping from a method call to one HTTP request and a decoded JSON response".
  The endpoint is the one the example program posts a \<open>Chat\<close> to.
\<close>

definition Chat ::
  "('u, 'm, 'c, 'r) golib \<Rightarrow> transport \<Rightarrow> go_context \<Rightarrow> 'c \<Rightarrow> 'u world
     \<Rightarrow> (error + 'r) \<times> 'u world" where
  "Chat L T ctx req w =
     (let rel = url_Path L ''/api/chat'';
          u = ResolveReference L (BaseURL (client w)) rel
      in sendChatRequest L T ctx ''POST'' (url_String L u) (ChatPtr req) w)"

section \<open>Blobs\<close>

text \<open>\<open>strings.Contains\<close>.\<close>

fun Contains :: "string \<Rightarrow> string \<Rightarrow> bool" where
  "Contains [] substr = (substr = [])"
| "Contains (c # cs) substr = (prefix substr (c # cs) \<or> Contains cs substr)"

text \<open>The result is the pair \<open>(bool, error)\<close>, with \<open>None\<close> for the \<open>nil\<close> error.\<close>

definition CheckBlobExists ::
  "('u, 'm, 'c, 'r) golib \<Rightarrow> transport \<Rightarrow> go_context \<Rightarrow> string \<Rightarrow> 'u world
     \<Rightarrow> (bool \<times> error option) \<times> 'u world" where
  "CheckBlobExists L T ctx digest w =
     (if Contains digest ''/'' \<or> Contains digest ''..'' then
        ((False, Some (InvalidDigest digest)), w)
      else
        (let safeDigest = PathEscape L digest;
             rel = url_Path L (''/api/blobs/'' @ safeDigest);
             u = ResolveReference L (BaseURL (client w)) rel
         in case NewRequestWithContext L ctx ''HEAD'' (url_String L u) None of
              Inl err \<Rightarrow> ((False, Some err), w)
            | Inr req \<Rightarrow>
                (case Do T req w of
                   (Inl err, w') \<Rightarrow> ((False, Some err), w')
                 | (Inr resp, w') \<Rightarrow>
                     if StatusCode resp = 200 then ((True, None), w')
                     else if StatusCode resp = 404 then ((False, None), w')
                     else ((False, Some (UnexpectedStatus (StatusCode resp))), w'))))"

text \<open>\<open>file\<close> is what the \<open>io.Reader\<close> yields.\<close>

definition PushBlob ::
  "('u, 'm, 'c, 'r) golib \<Rightarrow> transport \<Rightarrow> go_context \<Rightarrow> string \<Rightarrow> bytes \<Rightarrow> 'u world
     \<Rightarrow> error option \<times> 'u world" where
  "PushBlob L T ctx digest file w =
     (let rel = url_Path L (path_Join L ''/api/blobs'' digest);
          u = ResolveReference L (BaseURL (client w)) rel
      in case NewRequestWithContext L ctx ''POST'' (url_String L u) (Some file) of
           Inl err \<Rightarrow> (Some err, w)
         | Inr req \<Rightarrow>
             (case Do T (Header_Set req ''Content-Type'' ''application/octet-stream'') w of
                (Inl err, w') \<Rightarrow> (Some err, w')
              | (Inr resp, w') \<Rightarrow>
                  if StatusCode resp \<noteq> 201 then (Some (PushBlobFailed (Body resp)), w')
                  else (None, w')))"

section \<open>Status queries\<close>

definition Version ::
  "('u, 'm, 'c, 'r) golib \<Rightarrow> transport \<Rightarrow> go_context \<Rightarrow> 'u world
     \<Rightarrow> (error + Version) \<times> 'u world" where
  "Version L T ctx w =
     (let rel = url_Path L ''/api/version'';
          u = ResolveReference L (BaseURL (client w)) rel
      in case NewRequestWithContext L ctx ''GET'' (url_String L u) None of
           Inl err \<Rightarrow> (Inl err, w)
         | Inr req \<Rightarrow>
             (case Do T req w of
                (Inl err, w') \<Rightarrow> (Inl err, w')
              | (Inr resp, w') \<Rightarrow>
                  (case Decode_Version L (Body resp) of
                     Inl err \<Rightarrow> (Inl err, w')
                   | Inr (verResp, dec') \<Rightarrow> (Inr verResp, w'))))"

definition ListModels ::
  "('u, 'm, 'c, 'r) golib \<Rightarrow> transport \<Rightarrow> go_context \<Rightarrow> 'u world
     \<Rightarrow> (error + ModelList) \<times> 'u world" where
  "ListModels L T ctx w =
     (let rel = url_Path L ''/api/tags'';
          u = ResolveReference L (BaseURL (client w)) rel
      in case NewRequestWithContext L ctx ''GET'' (url_String L u) None of
           Inl err \<Rightarrow> (Inl err, w)
         | Inr req \<Rightarrow>
             (case Do T req w of
                (Inl err, w') \<Rightarrow> (Inl err, w')
              | (Inr resp, w') \<Rightarrow>
                  (case Decode_ModelList L (Body resp) of
                     Inl err \<Rightarrow> (Inl err, w')
                   | Inr (listResp, dec') \<Rightarrow> (Inr listResp, w'))))"

definition ProcessStatus ::
  "('u, 'm, 'c, 'r) golib \<Rightarrow> transport \<Rightarrow> go_context \<Rightarrow> 'u world
     \<Rightarrow> (error + ModelProcessStatus) \<times> 'u world" where
  "ProcessStatus L T ctx w =
     (let rel = url_Path L ''/api/ps'';
          u = ResolveReference L (BaseURL (client w)) rel
      in case NewRequestWithContext L ctx ''GET'' (url_String L u) None of
           Inl err \<Rightarrow> (Inl err, w)
         | Inr req \<Rightarrow>
             (case Do T req w of
                (Inl err, w') \<Rightarrow> (Inl err, w')
              | (Inr resp, w') \<Rightarrow>
                  (case Decode_ModelProcessStatus L (Body resp) of
                     Inl err \<Rightarrow> (Inl err, w')
                   | Inr (psResp, dec') \<Rightarrow> (Inr psResp, w'))))"

section \<open>Error messages\<close>

text \<open>The verb \<open>%d\<close> of \<open>fmt\<close>.\<close>

function dec_digits :: "nat \<Rightarrow> string" where
  "dec_digits n =
     (if n < 10 then [''0123456789'' ! n]
      else dec_digits (n div 10) @ [''0123456789'' ! (n mod 10)])"
  by pat_completeness auto
termination
  by (relation "measure id") auto

declare dec_digits.simps [simp del]

definition itoa :: "int \<Rightarrow> string" where
  "itoa i = (if i < 0 then ''-'' @ dec_digits (nat (- i)) else dec_digits (nat i))"

text \<open>\<open>err.Error()\<close>.\<close>

fun Error :: "error \<Rightarrow> string" where
  "Error (LibError msg) = msg"
| "Error (HTTPStatusError code body) =
     ''HTTP request failed with status '' @ itoa code @ '': '' @ body"
| "Error (StreamDecodeError err) = ''error decoding stream: '' @ Error err"
| "Error StreamExceeded = ''streaming response exceeded maximum allowed messages''"
| "Error InvalidFormatType =
     ''invalid type for Format field; must be string or map[string]interface{}''"
| "Error (InvalidContextIndex idx) =
     ''invalid type for Context at index '' @ dec_digits idx @ ''; expected int''"
| "Error InvalidContextType =
     ''invalid type for Context field; expected []int or []interface{} of ints''"
| "Error (InvalidDigest digest) = ''invalid digest: '' @ digest"
| "Error (UnexpectedStatus code) = ''unexpected status code: '' @ itoa code"
| "Error (PushBlobFailed body) = ''failed to push blob: '' @ body"

section \<open>Notions the claims are stated with\<close>

text \<open>
  \<open>stream_holds L dec ss = Some dec'\<close>: the stream behind the decoder \<open>dec\<close> begins
  with the messages \<open>ss\<close>, each one announced by \<open>More\<close> and decoded without error,
  and \<open>dec'\<close> is the decoder after them. With \<open>\<not> More L dec'\<close> the stream holds exactly
  \<open>ss\<close>; with \<open>More L dec'\<close> it holds more than \<open>length ss\<close> messages.
\<close>

fun stream_holds :: "('u, 'm, 'c, 'r) golib \<Rightarrow> bytes \<Rightarrow> string list \<Rightarrow> bytes option" where
  "stream_holds L dec [] = Some dec"
| "stream_holds L dec (s # ss) =
     (if More L dec then
        (case Decode_Status L dec of
           Inl err \<Rightarrow> None
         | Inr (s', dec') \<Rightarrow> if s' = s then stream_holds L dec' ss else None)
      else None)"

text \<open>A \<open>PromptInfo\<close> with every field at its zero value.\<close>

definition zero_PromptInfo :: PromptInfo where
  "zero_PromptInfo =
     \<lparr>pi_Model = [], pi_Prompt = [], pi_Suffix = [], pi_System = [], pi_Template = [],
      pi_Images = [], pi_Format = GoNil, pi_Options = [], pi_Stream = None, pi_Raw = None,
      pi_KeepAlive = [], pi_Context = GoNil\<rparr>"

section \<open>A sample library and server\<close>

text \<open>
  One instance of the parameters, to evaluate the operations at concrete inputs. A URL is
  kept as its text; the base URLs used have a scheme and a host and nothing else, for
  which resolving \<open>&url.URL{Path: p}\<close> appends \<open>p\<close>. The decoders read a compact
  object with one string field whose text needs no escaping; the encoder writes the
  fields in the order given. Both reject what \<open>encoding/json\<close> rejects on the inputs
  used below: text that does not begin a JSON value, and a channel as a value to encode.
  \<open>sample_More\<close> is \<open>Decoder.More\<close> as the package has it: after white space, there
  is a byte and it closes no array or object.
\<close>

definition is_space :: "char \<Rightarrow> bool" where
  "is_space c = (c = CHR '' '' \<or> c = CHR 0x09 \<or> c = CHR 0x0D \<or> c = CHR 0x0A)"

definition sample_More :: "bytes \<Rightarrow> bool" where
  "sample_More dec =
     (case dropWhile is_space dec of
        [] \<Rightarrow> False
      | c # cs \<Rightarrow> c \<noteq> CHR '']'' \<and> c \<noteq> CHR ''}'')"

definition quote :: "string \<Rightarrow> string" where
  "quote s = [CHR 0x22] @ s @ [CHR 0x22]"

fun join_fields :: "string list \<Rightarrow> string" where
  "join_fields [] = []"
| "join_fields [f] = f"
| "join_fields (f # g # fs) = f @ '','' @ join_fields (g # fs)"

text \<open>A JSON object from its fields, each value already rendered, in the order given.\<close>

definition object :: "(string \<times> string) list \<Rightarrow> bytes" where
  "object kvs = ''{'' @ join_fields (map (\<lambda>kv. quote (fst kv) @ '':'' @ snd kv) kvs) @ ''}''"

fun render :: "goval \<Rightarrow> string" where
  "render (GoString s) = quote s"
| "render (GoBool b) = (if b then ''true'' else ''false'')"
| "render (GoInt i) = itoa i"
| "render (GoIfaceMap []) = ''{}''"
| "render v = ''null''"

definition decode_string_field :: "string \<Rightarrow> bytes \<Rightarrow> error + (string \<times> bytes)" where
  "decode_string_field k dec =
     (let b1 = dropWhile is_space dec;
          opening = ''{'' @ quote k @ '':'' @ [CHR 0x22]
      in if prefix opening b1 then
           (let b2 = drop (length opening) b1;
                s = takeWhile (\<lambda>c. c \<noteq> CHR 0x22) b2;
                b3 = dropWhile (\<lambda>c. c \<noteq> CHR 0x22) b2
            in if prefix ([CHR 0x22] @ ''}'') b3 then Inr (s, drop 2 b3)
               else Inl (LibError ''unexpected EOF''))
         else Inl (LibError ''invalid character looking for beginning of value''))"

definition decode_with :: "(string \<Rightarrow> 'a) \<Rightarrow> string \<Rightarrow> bytes \<Rightarrow> error + ('a \<times> bytes)" where
  "decode_with f k dec =
     (case decode_string_field k dec of
        Inl err \<Rightarrow> Inl err
      | Inr (s, dec') \<Rightarrow> Inr (f s, dec'))"

definition sample_json_Encode :: "(unit, string) payload \<Rightarrow> error + bytes" where
  "sample_json_Encode body =
     (case body of
        MapStringString kvs \<Rightarrow>
          Inr (object (map (\<lambda>kv. (fst kv, quote (snd kv))) kvs) @ [CHR 0x0A])
      | MapStringIface kvs \<Rightarrow>
          Inr (object (map (\<lambda>kv. (fst kv, render (snd kv))) kvs) @ [CHR 0x0A])
      | PromptInfoPtr req \<Rightarrow>
          Inr (object [(''model'', quote (pi_Model req))] @ [CHR 0x0A])
      | DeleteModelRequestPtr req \<Rightarrow>
          Inr (object [(''model'', quote (dm_Model req))] @ [CHR 0x0A])
      | CreateModelRequestPtr req \<Rightarrow>
          (if cm_License req = GoOther ''chan int'' then
             Inl (LibError ''json: unsupported type: chan int'')
           else Inr (object [(''model'', quote (cm_Model req))] @ [CHR 0x0A]))
      | ChatPtr req \<Rightarrow> Inr (object [(''model'', quote req)] @ [CHR 0x0A]))"

definition sample_lib :: "(string, unit, string, string) golib" where
  "sample_lib =
     \<lparr>url_Parse = (\<lambda>s. if prefix '':'' s then Inl (LibError ''missing protocol scheme'')
                         else Inr s),
      url_Path = (\<lambda>p. p),
      ResolveReference = (\<lambda>base ref. base @ ref),
      url_String = (\<lambda>u. u),
      PathEscape = (\<lambda>s. s),
      path_Join = (\<lambda>a b. a @ ''/'' @ b),
      request_check = (\<lambda>ctx method urlStr.
         if ctx = NilContext then Some (LibError ''net/http: nil Context'') else None),
      json_Encode = sample_json_Encode,
      More = sample_More,
      Decode_Status = decode_string_field ''status'',
      Decode_PromptResult = decode_with
        (\<lambda>s. \<lparr>pr_Model = [], pr_Response = s, pr_CreatedAt = Instant 0, pr_Context = GoNil,
              pr_Done = False, pr_DoneReason = [], pr_TotalDuration = 0, pr_LoadDuration = 0,
              pr_PromptEvalCount = 0, pr_PromptEvalDuration = 0, pr_EvalCount = 0,
              pr_EvalDuration = 0\<rparr>) ''response'',
      Decode_ModelResponse = decode_with (\<lambda>s. s) ''model'',
      Decode_ModelInfoResult = decode_with
        (\<lambda>s. \<lparr>mi_Modelfile = s, mi_Parameters = [], mi_Template = [], mi_Details = [],
              mi_ModelInfo = []\<rparr>) ''modelfile'',
      Decode_EmbedResult = decode_with
        (\<lambda>s. \<lparr>er_Model = s, er_CreatedAt = Instant 0, er_Embedding = GoNil\<rparr>) ''model'',
      Decode_ModelList = decode_with (\<lambda>s. \<lparr>ml_Models = []\<rparr>) ''name'',
      Decode_Version = decode_with (\<lambda>s. \<lparr>v_Version = s, v_BuildTime = []\<rparr>) ''version'',
      Decode_ModelProcessStatus = decode_with (\<lambda>s. \<lparr>ps_Models = []\<rparr>) ''name''\<rparr>"

text \<open>A server that answers every request with \<open>resp\<close>, and one that cannot be reached.\<close>

definition answers :: "response \<Rightarrow> transport" where
  "answers resp = (\<lambda>hc req. Inr resp)"

definition unreachable :: transport where
  "unreachable = (\<lambda>hc req. Inl (LibError ''connection refused''))"

definition w0 :: "string world" where
  "w0 = \<lparr>client = \<lparr>BaseURL = ''http://localhost:11434'',
                    HTTPClient = \<lparr>Timeout = 12 * Minute\<rparr>\<rparr>,
         wire = []\<rparr>"

text \<open>A \<open>CreateModelRequest\<close> for the model \<open>name\<close> with the licence \<open>lic\<close>.\<close>

definition create_request :: "string \<Rightarrow> goval \<Rightarrow> unit CreateModelRequest" where
  "create_request name lic =
     \<lparr>cm_Model = name, cm_From = [], cm_Files = [], cm_Adapters = [], cm_Template = [],
      cm_License = lic, cm_System = [], cm_Parameters = [], cm_Messages = [],
      cm_Stream = None, cm_Quantize = []\<rparr>"

text \<open>The line a server streams for one status message.\<close>

definition status_line :: "string \<Rightarrow> bytes" where
  "status_line s = object [(''status'', quote s)]"

section \<open>The claims' own words\<close>

text \<open>
  What the specification says \<open>ValidatePromptInfo\<close> accepts: a \<open>Format\<close> that is
  \<open>nil\<close>, a string or a \<open>map[string]interface{}\<close>, and a \<open>Context\<close> that is \<open>nil\<close>,
  a \<open>[]int\<close> or a \<open>[]interface{}\<close> whose elements all have type \<open>int\<close>.
\<close>

definition is_int :: "goval \<Rightarrow> bool" where
  "is_int v = (case v of GoInt i \<Rightarrow> True | _ \<Rightarrow> False)"

definition spec_Format_ok :: "goval \<Rightarrow> bool" where
  "spec_Format_ok v =
     (case v of GoNil \<Rightarrow> True | GoString s \<Rightarrow> True | GoIfaceMap m \<Rightarrow> True | _ \<Rightarrow> False)"

definition spec_Context_ok :: "goval \<Rightarrow> bool" where
  "spec_Context_ok v =
     (case v of
        GoNil \<Rightarrow> True
      | GoIntSlice xs \<Rightarrow> True
      | GoIfaceSlice vs \<Rightarrow> list_all is_int vs
      | _ \<Rightarrow> False)"

text \<open>
  The request an operation is said to send, and the endpoint \<open>p\<close> resolved against
  \<open>BaseURL\<close>.
\<close>

definition endpoint :: "('u, 'm, 'c, 'r) golib \<Rightarrow> 'u world \<Rightarrow> string \<Rightarrow> string" where
  "endpoint L w p = url_String L (ResolveReference L (BaseURL (client w)) (url_Path L p))"

definition the_request ::
  "go_context \<Rightarrow> string \<Rightarrow> string \<Rightarrow> (string \<times> string) list \<Rightarrow> bytes option \<Rightarrow> request" where
  "the_request ctx method url hs b =
     \<lparr>Ctx = ctx, Method = method, URL = url, Header = hs, ReqBody = b\<rparr>"

definition json_header :: "(string \<times> string) list" where
  "json_header = [(''Content-Type'', ''application/json'')]"

text \<open>The requests an operation has put on the wire, given the worlds before and after.\<close>

definition sent :: "'u world \<Rightarrow> 'u world \<Rightarrow> request list" where
  "sent w w' = drop (length (wire w)) (wire w')"

text \<open>
  "Every operation": a call of one of the methods of \<open>Client\<close> with its arguments,
  what it returns, and the method it stands for.
\<close>

datatype 'm call =
    PullModelCall string
  | PushModelCall string
  | CopyModelCall string string
  | DeleteModelCall DeleteModelRequest
  | CreateModelCall "'m CreateModelRequest"
  | GenerateCall PromptInfo
  | EmbedCall string string "(string \<times> goval) list"
  | FetchModelInfoCall string bool
  | CheckBlobExistsCall string
  | PushBlobCall string bytes
  | VersionCall
  | ListModelsCall
  | ProcessStatusCall

datatype returned =
    PullModelReturned "error + PullModelResult"
  | PushModelReturned "error + PushModelResult"
  | CopyModelReturned "error + CopyModelResult"
  | DeleteModelReturned "error + DeleteModelResult"
  | CreateModelReturned "error + CreateModelResult"
  | GenerateReturned "error + PromptResult"
  | EmbedReturned "error + EmbedResult"
  | FetchModelInfoReturned "error + ModelInfoResult"
  | CheckBlobExistsReturned "bool \<times> error option"
  | PushBlobReturned "error option"
  | VersionReturned "error + Version"
  | ListModelsReturned "error + ModelList"
  | ProcessStatusReturned "error + ModelProcessStatus"

fun perform ::
  "('u, 'm, 'c, 'r) golib \<Rightarrow> transport \<Rightarrow> go_context \<Rightarrow> 'm call \<Rightarrow> 'u world
     \<Rightarrow> returned \<times> 'u world" where
  "perform L T ctx (PullModelCall model) w = apfst PullModelReturned (PullModel L T ctx model w)"
| "perform L T ctx (PushModelCall model) w = apfst PushModelReturned (PushModel L T ctx model w)"
| "perform L T ctx (CopyModelCall source destination) w =
     apfst CopyModelReturned (CopyModel L T ctx source destination w)"
| "perform L T ctx (DeleteModelCall req) w =
     apfst DeleteModelReturned (DeleteModel L T ctx req w)"
| "perform L T ctx (CreateModelCall req) w =
     apfst CreateModelReturned (CreateModel L T ctx req w)"
| "perform L T ctx (GenerateCall req) w = apfst GenerateReturned (Generate L T ctx req w)"
| "perform L T ctx (EmbedCall model input options) w =
     apfst EmbedReturned (Embed L T ctx model input options w)"
| "perform L T ctx (FetchModelInfoCall model verbose) w =
     apfst FetchModelInfoReturned (FetchModelInfo L T ctx model verbose w)"
| "perform L T ctx (CheckBlobExistsCall digest) w =
     apfst CheckBlobExistsReturned (CheckBlobExists L T ctx digest w)"
| "perform L T ctx (PushBlobCall digest file) w =
     apfst PushBlobReturned (PushBlob L T ctx digest file w)"
| "perform L T ctx VersionCall w = apfst VersionReturned (Version L T ctx w)"
| "perform L T ctx ListModelsCall w = apfst ListModelsReturned (ListModels L T ctx w)"
| "perform L T ctx ProcessStatusCall w =
     apfst ProcessStatusReturned (ProcessStatus L T ctx w)"

text \<open>
  How many messages the stream behind \<open>dec\<close> yields before it ends or one fails to
  decode, looking at no more than \<open>n\<close> of them.
\<close>

fun message_count :: "('u, 'm, 'c, 'r) golib \<Rightarrow> nat \<Rightarrow> bytes \<Rightarrow> nat" where
  "message_count L 0 dec = 0"
| "message_count L (Suc n) dec =
     (if More L dec then
        (case Decode_Status L dec of
           Inl err \<Rightarrow> 0
         | Inr (s, dec') \<Rightarrow> Suc (message_count L n dec'))
      else 0)"

section \<open>The streaming status decoder\<close>

lemma stream_loop_reads:
  "stream_holds L dec ss = Some dec' \<Longrightarrow> length msgs + length ss \<le> mx \<Longrightarrow>
   stream_loop L mx dec msgs = stream_loop L mx dec' (msgs @ ss)"
proof (induction ss arbitrary: dec msgs)
  case Nil
  then show ?case by simp
next
  case (Cons s ss)
  from Cons.prems(1) obtain d where m: "More L dec" and d: "Decode_Status L dec = Inr (s, d)"
    and r: "stream_holds L d ss = Some dec'"
    by (auto split: if_splits sum.splits)
  from Cons.prems(2) have lt: "length msgs < mx" and le: "length (msgs @ [s]) + length ss \<le> mx"
    by simp_all
  have "stream_loop L mx dec msgs = stream_loop L mx d (msgs @ [s])"
    using m d lt by (subst stream_loop.simps) simp
  also have "\<dots> = stream_loop L mx dec' ((msgs @ [s]) @ ss)"
    using Cons.IH [OF r le] .
  finally show ?case by simp
qed

lemma stream_loop_stop:
  "\<not> More L dec \<or> mx \<le> length msgs \<Longrightarrow> stream_loop L mx dec msgs = Inr msgs"
  by (subst stream_loop.simps) auto

lemma stream_loop_fail:
  "More L dec \<Longrightarrow> length msgs < mx \<Longrightarrow> Decode_Status L dec = Inl e \<Longrightarrow>
   stream_loop L mx dec msgs = Inl (StreamDecodeError e)"
  by (subst stream_loop.simps) simp

lemma stream_loop_Inr:
  "stream_loop L mx dec msgs0 = Inr msgs \<Longrightarrow>
   \<exists>ss d. msgs = msgs0 @ ss \<and> stream_holds L dec ss = Some d \<and>
     (\<not> More L d \<or> mx \<le> length msgs)"
proof (induction L mx dec msgs0 rule: stream_loop.induct)
  case (1 L mx dec msgs0)
  show ?case
  proof (cases "More L dec \<and> length msgs0 < mx")
    case False
    with "1.prems" have "msgs = msgs0"
      by (subst (asm) stream_loop.simps) auto
    with False show ?thesis
      by (intro exI [of _ "[]"] exI [of _ dec]) auto
  next
    case True
    with "1.prems" obtain s d where d: "Decode_Status L dec = Inr (s, d)"
      and r: "stream_loop L mx d (msgs0 @ [s]) = Inr msgs"
      by (subst (asm) stream_loop.simps) (auto split: sum.splits)
    from "1.IH" [OF True d refl r] obtain ss d' where
      "msgs = (msgs0 @ [s]) @ ss" "stream_holds L d ss = Some d'"
      "\<not> More L d' \<or> mx \<le> length msgs"
      by blast
    with True d show ?thesis
      by (intro exI [of _ "s # ss"] exI [of _ d']) auto
  qed
qed

lemma sendStatusStreamRequest_2xx:
  assumes "json_Encode L body = Inr buf"
    and "NewRequestWithContext L ctx method urlStr (Some buf) = Inr req"
    and "T (HTTPClient (client w)) (Header_Set req ''Content-Type'' ''application/json'') = Inr resp"
    and "200 \<le> StatusCode resp" and "StatusCode resp < 300"
  shows "fst (sendStatusStreamRequest L T ctx method urlStr body w) =
    (case stream_loop L maxMessages (Body resp) [] of
       Inl err \<Rightarrow> Inl err
     | Inr msgs \<Rightarrow> if maxMessages \<le> length msgs then Inl StreamExceeded else Inr msgs)"
  using assms by (simp add: sendStatusStreamRequest_def Do_def split: sum.splits)

text \<open>
  Claim C1, as amended. For a response with a 2xx status, \<open>sendStatusStreamRequest\<close>
  reads the body as a stream of messages and collects the status of each, in order.
  A result it returns holds fewer than 1000 messages and is the whole stream. It
  returns the messages when the stream holds fewer than 1000 and all decode; it
  returns the wrapped decoding error when a message among the first 1000 fails to
  decode; it returns the error "exceeded maximum allowed messages" when the stream
  holds more than 1000 messages.
\<close>

theorem sendStatusStreamRequest_bounded:
  assumes enc: "json_Encode L body = Inr buf"
    and req: "NewRequestWithContext L ctx method urlStr (Some buf) = Inr req"
    and srv: "T (HTTPClient (client w)) (Header_Set req ''Content-Type'' ''application/json'')
                = Inr resp"
    and lo: "200 \<le> StatusCode resp" and hi: "StatusCode resp < 300"
  shows "(\<forall>msgs. fst (sendStatusStreamRequest L T ctx method urlStr body w) = Inr msgs \<longrightarrow>
            length msgs < 1000 \<and>
            (\<exists>d. stream_holds L (Body resp) msgs = Some d \<and> \<not> More L d)) \<and>
         (\<forall>ss d. stream_holds L (Body resp) ss = Some d \<and> \<not> More L d \<and> length ss < 1000 \<longrightarrow>
            fst (sendStatusStreamRequest L T ctx method urlStr body w) = Inr ss) \<and>
         (\<forall>ss d e. stream_holds L (Body resp) ss = Some d \<and> length ss < 1000 \<and> More L d \<and>
              Decode_Status L d = Inl e \<longrightarrow>
            fst (sendStatusStreamRequest L T ctx method urlStr body w)
              = Inl (StreamDecodeError e)) \<and>
         (\<forall>ss d. stream_holds L (Body resp) ss = Some d \<and> length ss = 1000 \<and> More L d \<longrightarrow>
            fst (sendStatusStreamRequest L T ctx method urlStr body w) = Inl StreamExceeded)"
proof -
  let ?R = "fst (sendStatusStreamRequest L T ctx method urlStr body w)"
  let ?loop = "stream_loop L maxMessages (Body resp) []"
  have R: "?R = (case ?loop of Inl err \<Rightarrow> Inl err
     | Inr msgs \<Rightarrow> if maxMessages \<le> length msgs then Inl StreamExceeded else Inr msgs)"
    by (rule sendStatusStreamRequest_2xx [where T = T and w = w, OF enc req srv lo hi])
  have a: "length msgs < 1000 \<and> (\<exists>d. stream_holds L (Body resp) msgs = Some d \<and> \<not> More L d)"
    if "?R = Inr msgs" for msgs
  proof -
    from that R have l: "?loop = Inr msgs" and n: "\<not> maxMessages \<le> length msgs"
      by (auto split: sum.splits if_splits)
    from stream_loop_Inr [OF l] n show ?thesis
      by (auto simp: maxMessages_def)
  qed
  have b: "?R = Inr ss"
    if "stream_holds L (Body resp) ss = Some d" "\<not> More L d" "length ss < 1000" for ss d
  proof -
    have "?loop = stream_loop L maxMessages d ([] @ ss)"
      using that by (intro stream_loop_reads) (simp_all add: maxMessages_def)
    also have "\<dots> = Inr ss"
      using that by (simp add: stream_loop_stop)
    finally show ?thesis
      using that R by (simp add: maxMessages_def)
  qed
  have c: "?R = Inl (StreamDecodeError e)"
    if "stream_holds L (Body resp) ss = Some d" "length ss < 1000" "More L d"
      "Decode_Status L d = Inl e" for ss d e
  proof -
    have "?loop = stream_loop L maxMessages d ([] @ ss)"
      using that by (intro stream_loop_reads) (simp_all add: maxMessages_def)
    also have "\<dots> = Inl (StreamDecodeError e)"
      using that by (simp add: stream_loop_fail maxMessages_def)
    finally show ?thesis
      using R by simp
  qed
  have d: "?R = Inl StreamExceeded"
    if "stream_holds L (Body resp) ss = Some d" "length ss = 1000" for ss d
  proof -
    have "?loop = stream_loop L maxMessages d ([] @ ss)"
      using that by (intro stream_loop_reads) (simp_all add: maxMessages_def)
    also have "\<dots> = Inr ss"
      using that by (simp add: stream_loop_stop maxMessages_def)
    finally show ?thesis
      using that R by (simp add: maxMessages_def)
  qed
  from a b c d show ?thesis by blast
qed

lemma sample_More_line: "sample_More (status_line s @ rest)"
  by (simp add: sample_More_def status_line_def object_def quote_def is_space_def)

lemma sample_Decode_line:
  "decode_string_field ''status'' (status_line ''ok'' @ rest) = Inr (''ok'', rest)"
  by (simp add: decode_string_field_def status_line_def object_def quote_def is_space_def)

lemma sample_stream:
  "stream_holds sample_lib (concat (replicate n (status_line ''ok'')) @ rest)
     (replicate n ''ok'') = Some rest"
  by (induction n) (simp_all add: sample_lib_def sample_More_line sample_Decode_line)


lemma sample_encode_model:
  "json_Encode sample_lib (MapStringString [(''model'', m)])
     = Inr (object [(''model'', quote m)] @ [CHR 0x0A])"
  by (simp add: sample_lib_def sample_json_Encode_def)

lemma sample_request:
  "NewRequestWithContext sample_lib (Context c) ''POST'' u b
     = Inr \<lparr>Ctx = Context c, Method = ''POST'', URL = u, Header = [], ReqBody = b\<rparr>"
  by (simp add: NewRequestWithContext_def sample_lib_def)

theorem sendStatusStreamRequest_bounded_witness:
  "fst (sendStatusStreamRequest sample_lib
          (answers \<lparr>StatusCode = 200,
             Body = status_line ''pulling manifest'' @ [CHR 0x0A] @ status_line ''success''\<rparr>)
          (Context ''bg'') ''POST'' ''http://localhost:11434/api/pull''
          (MapStringString [(''model'', ''llama3'')]) w0)
     = Inr [''pulling manifest'', ''success''] \<and>
   fst (sendStatusStreamRequest sample_lib
          (answers \<lparr>StatusCode = 200, Body = status_line ''ok'' @ ''<html>''\<rparr>)
          (Context ''bg'') ''POST'' ''http://localhost:11434/api/pull''
          (MapStringString [(''model'', ''llama3'')]) w0)
     = Inl (StreamDecodeError (LibError ''invalid character looking for beginning of value'')) \<and>
   fst (sendStatusStreamRequest sample_lib
          (answers \<lparr>StatusCode = 200,
             Body = concat (replicate 1000 (status_line ''ok'')) @ status_line ''ok''\<rparr>)
          (Context ''bg'') ''POST'' ''http://localhost:11434/api/pull''
          (MapStringString [(''model'', ''llama3'')]) w0)
     = Inl StreamExceeded"
proof -
  let ?two = "status_line ''pulling manifest'' @ [CHR 0x0A] @ status_line ''success''"
  let ?bad = "status_line ''ok'' @ ''<html>''"
  let ?many = "concat (replicate 1000 (status_line ''ok'')) @ status_line ''ok''"
  have two: "stream_holds sample_lib ?two [''pulling manifest'', ''success''] = Some []"
    and two_end: "\<not> More sample_lib []"
    by (simp_all add: sample_lib_def sample_More_def decode_string_field_def status_line_def
        object_def quote_def is_space_def)
  have bad: "stream_holds sample_lib ?bad [''ok''] = Some ''<html>''"
    and bad_more: "More sample_lib ''<html>''"
    and bad_err: "Decode_Status sample_lib ''<html>''
      = Inl (LibError ''invalid character looking for beginning of value'')"
    by (simp_all add: sample_lib_def sample_More_def decode_string_field_def status_line_def
        object_def quote_def is_space_def)
  have many: "stream_holds sample_lib ?many (replicate 1000 ''ok'') = Some (status_line ''ok'')"
    by (rule sample_stream)
  have many_more: "More sample_lib (status_line ''ok'')"
    using sample_More_line [of "''ok''" "[]"] by (simp add: sample_lib_def)
  have srv: "answers r (HTTPClient (client w0)) q = Inr r" for r q
    by (simp add: answers_def)
  have ok: "200 \<le> StatusCode \<lparr>StatusCode = 200, Body = b\<rparr>"
    "StatusCode \<lparr>StatusCode = 200, Body = b\<rparr> < 300" for b
    by simp_all
  note t1 = sendStatusStreamRequest_bounded [where L = sample_lib and w = w0
      and T = "answers \<lparr>StatusCode = 200, Body = ?two\<rparr>"
      and resp = "\<lparr>StatusCode = 200, Body = ?two\<rparr>",
      OF sample_encode_model sample_request srv ok]
  note t2 = sendStatusStreamRequest_bounded [where L = sample_lib and w = w0
      and T = "answers \<lparr>StatusCode = 200, Body = ?bad\<rparr>"
      and resp = "\<lparr>StatusCode = 200, Body = ?bad\<rparr>",
      OF sample_encode_model sample_request srv ok]
  note t3 = sendStatusStreamRequest_bounded [where L = sample_lib and w = w0
      and T = "answers \<lparr>StatusCode = 200, Body = ?many\<rparr>"
      and resp = "\<lparr>StatusCode = 200, Body = ?many\<rparr>",
      OF sample_encode_model sample_request srv ok]
  have 1: "fst (sendStatusStreamRequest sample_lib (answers \<lparr>StatusCode = 200, Body = ?two\<rparr>)
          (Context ''bg'') ''POST'' ''http://localhost:11434/api/pull''
          (MapStringString [(''model'', ''llama3'')]) w0) = Inr [''pulling manifest'', ''success'']"
    by (rule t1 [THEN conjunct2, THEN conjunct1, rule_format, of _ "[]"])
      (unfold response.select_convs, intro conjI, rule two, rule two_end, simp)
  have 2: "fst (sendStatusStreamRequest sample_lib (answers \<lparr>StatusCode = 200, Body = ?bad\<rparr>)
          (Context ''bg'') ''POST'' ''http://localhost:11434/api/pull''
          (MapStringString [(''model'', ''llama3'')]) w0)
     = Inl (StreamDecodeError (LibError ''invalid character looking for beginning of value''))"
    by (rule t2 [THEN conjunct2, THEN conjunct2, THEN conjunct1, rule_format,
          of "[''ok'']" "''<html>''"])
      (unfold response.select_convs, intro conjI, rule bad, simp, rule bad_more, rule bad_err)
  have 3: "fst (sendStatusStreamRequest sample_lib (answers \<lparr>StatusCode = 200, Body = ?many\<rparr>)
          (Context ''bg'') ''POST'' ''http://localhost:11434/api/pull''
          (MapStringString [(''model'', ''llama3'')]) w0) = Inl StreamExceeded"
    by (rule t3 [THEN conjunct2, THEN conjunct2, THEN conjunct2, rule_format,
          of "replicate 1000 ''ok''" "status_line ''ok''"])
      (unfold response.select_convs, intro conjI, rule many, simp, rule many_more)
  from 1 2 3 show ?thesis by blast
qed

text \<open>
  Claim C1 as stated fails: an error is returned for a stream of one message followed
  by text that is no JSON value, far below the maximum.
\<close>

theorem sendStatusStreamRequest_decode_error_counterexample:
  "fst (sendStatusStreamRequest sample_lib
          (answers \<lparr>StatusCode = 200,
             Body = status_line ''pulling manifest'' @ ''internal error''\<rparr>)
          (Context ''bg'') ''POST'' ''http://localhost:11434/api/pull''
          (MapStringString [(''model'', ''llama3'')]) w0)
     = Inl (StreamDecodeError (LibError ''invalid character looking for beginning of value'')) \<and>
   message_count sample_lib (Suc maxMessages)
     (status_line ''pulling manifest'' @ ''internal error'') = 1"
proof -
  let ?body = "status_line ''pulling manifest'' @ ''internal error''"
  have more: "More sample_lib ?body" and more2: "More sample_lib ''internal error''"
    and dec: "Decode_Status sample_lib ?body = Inr (''pulling manifest'', ''internal error'')"
    and bad: "Decode_Status sample_lib ''internal error''
      = Inl (LibError ''invalid character looking for beginning of value'')"
    by (simp_all add: sample_lib_def sample_More_def decode_string_field_def status_line_def
        object_def quote_def is_space_def)
  have "stream_loop sample_lib maxMessages ?body []
      = stream_loop sample_lib maxMessages ''internal error'' [''pulling manifest'']"
    using more dec by (subst stream_loop.simps) (simp add: maxMessages_def)
  also have "\<dots> = Inl (StreamDecodeError
      (LibError ''invalid character looking for beginning of value''))"
    using more2 bad by (intro stream_loop_fail) (simp_all add: maxMessages_def)
  finally have loop: "stream_loop sample_lib maxMessages ?body []
      = Inl (StreamDecodeError (LibError ''invalid character looking for beginning of value''))" .
  have run: "fst (sendStatusStreamRequest sample_lib
          (answers \<lparr>StatusCode = 200, Body = ?body\<rparr>)
          (Context ''bg'') ''POST'' ''http://localhost:11434/api/pull''
          (MapStringString [(''model'', ''llama3'')]) w0)
     = Inl (StreamDecodeError (LibError ''invalid character looking for beginning of value''))"
    by (subst sendStatusStreamRequest_2xx [where L = sample_lib and w = w0
          and resp = "\<lparr>StatusCode = 200, Body = ?body\<rparr>",
          OF sample_encode_model sample_request])
      (simp_all add: answers_def loop)
  have count: "message_count sample_lib (Suc maxMessages) ?body = 1"
    using more more2 dec bad by (simp add: maxMessages_def eval_nat_numeral)
  from run count show ?thesis by blast
qed

section \<open>Requests and the wire\<close>

lemma NewRequestWithContext_None:
  "request_check L ctx m u = None \<Longrightarrow>
   NewRequestWithContext L ctx m u b
     = Inr (the_request ctx (if m = [] then ''GET'' else m) u [] b)"
  by (simp add: NewRequestWithContext_def the_request_def)

lemma NewRequestWithContext_Some:
  "request_check L ctx m u = Some err \<Longrightarrow> NewRequestWithContext L ctx m u b = Inl err"
  by (simp add: NewRequestWithContext_def)

lemma Header_Set_the_request:
  "Header_Set (the_request ctx m u [] b) k v = the_request ctx m u [(k, v)] b"
  by (simp add: Header_Set_def the_request_def)

lemma sent_same [simp]: "sent w w = []"
  by (simp add: sent_def)

lemma sent_append [simp]: "sent w (w\<lparr>wire := wire w @ rs\<rparr>) = rs"
  by (simp add: sent_def)

lemma wrap_fst:
  "fst (case p of (Inl err, w') \<Rightarrow> (Inl err, w') | (Inr res, w') \<Rightarrow> (Inr (f res), w'))
     = map_sum id f (fst p)"
  by (cases p) (auto split: sum.splits)

lemma wrap_snd:
  "snd (case p of (Inl err, w') \<Rightarrow> (Inl err, w') | (Inr res, w') \<Rightarrow> (Inr (f res), w'))
     = snd p"
  by (cases p) (auto split: sum.splits)

section \<open>What each helper computes\<close>

lemma sendStatusStreamRequest_eq:
  "sendStatusStreamRequest L T ctx m u body w =
     (case json_Encode L body of
        Inl err \<Rightarrow> (Inl err, w)
      | Inr buf \<Rightarrow>
          (case request_check L ctx m u of
             Some err \<Rightarrow> (Inl err, w)
           | None \<Rightarrow>
               ((case T (HTTPClient (client w))
                    (the_request ctx (if m = [] then ''GET'' else m) u json_header (Some buf)) of
                   Inl err \<Rightarrow> Inl err
                 | Inr resp \<Rightarrow>
                     if StatusCode resp < 200 \<or> 300 \<le> StatusCode resp then
                       Inl (HTTPStatusError (StatusCode resp) (take 512 (Body resp)))
                     else
                       (case stream_loop L maxMessages (Body resp) [] of
                          Inl err \<Rightarrow> Inl err
                        | Inr msgs \<Rightarrow>
                            if maxMessages \<le> length msgs then Inl StreamExceeded
                            else Inr msgs)),
                w\<lparr>wire := wire w @
                  [the_request ctx (if m = [] then ''GET'' else m) u json_header
                     (Some buf)]\<rparr>)))"
proof (cases "json_Encode L body")
  case (Inl err)
  then show ?thesis by (simp add: sendStatusStreamRequest_def)
next
  case enc: (Inr buf)
  show ?thesis
  proof (cases "request_check L ctx m u")
    case (Some err)
    with enc show ?thesis by (simp add: sendStatusStreamRequest_def NewRequestWithContext_Some)
  next
    case None
    with enc show ?thesis
      by (simp add: sendStatusStreamRequest_def NewRequestWithContext_None Header_Set_the_request Do_def
          json_header_def split: sum.split prod.split)
  qed
qed

lemma sendStatusStreamRequest_fst:
  "fst (sendStatusStreamRequest L T ctx m u body w) =
     (case json_Encode L body of
        Inl err \<Rightarrow> Inl err
      | Inr buf \<Rightarrow>
          (case request_check L ctx m u of
             Some err \<Rightarrow> Inl err
           | None \<Rightarrow>
               (case T (HTTPClient (client w))
                   (the_request ctx (if m = [] then ''GET'' else m) u json_header (Some buf)) of
                  Inl err \<Rightarrow> Inl err
                | Inr resp \<Rightarrow>
                     if StatusCode resp < 200 \<or> 300 \<le> StatusCode resp then
                       Inl (HTTPStatusError (StatusCode resp) (take 512 (Body resp)))
                     else
                       (case stream_loop L maxMessages (Body resp) [] of
                          Inl err \<Rightarrow> Inl err
                        | Inr msgs \<Rightarrow>
                            if maxMessages \<le> length msgs then Inl StreamExceeded
                            else Inr msgs))))"
  by (simp add: sendStatusStreamRequest_eq split: sum.split option.split)

lemma sendStatusStreamRequest_snd:
  "snd (sendStatusStreamRequest L T ctx m u body w) =
     (case json_Encode L body of
        Inl err \<Rightarrow> w
      | Inr buf \<Rightarrow>
          (case request_check L ctx m u of
             Some err \<Rightarrow> w
           | None \<Rightarrow> w\<lparr>wire := wire w @
               [the_request ctx (if m = [] then ''GET'' else m) u json_header (Some buf)]\<rparr>))"
  by (simp add: sendStatusStreamRequest_eq split: sum.split option.split)

lemma sendRequest_eq:
  "sendRequest L T ctx m u body w =
     (case json_Encode L body of
        Inl err \<Rightarrow> (Inl err, w)
      | Inr buf \<Rightarrow>
          (case request_check L ctx m u of
             Some err \<Rightarrow> (Inl err, w)
           | None \<Rightarrow>
               ((case T (HTTPClient (client w))
                    (the_request ctx (if m = [] then ''GET'' else m) u json_header (Some buf)) of
                   Inl err \<Rightarrow> Inl err
                 | Inr resp \<Rightarrow>
                     if StatusCode resp < 200 \<or> 300 \<le> StatusCode resp then
                       Inl (HTTPStatusError (StatusCode resp) (Body resp))
                     else map_sum id fst (Decode_PromptResult L (Body resp))),
                w\<lparr>wire := wire w @
                  [the_request ctx (if m = [] then ''GET'' else m) u json_header
                     (Some buf)]\<rparr>)))"
proof (cases "json_Encode L body")
  case (Inl err)
  then show ?thesis by (simp add: sendRequest_def)
next
  case enc: (Inr buf)
  show ?thesis
  proof (cases "request_check L ctx m u")
    case (Some err)
    with enc show ?thesis by (simp add: sendRequest_def NewRequestWithContext_Some)
  next
    case None
    with enc show ?thesis
      by (simp add: sendRequest_def NewRequestWithContext_None Header_Set_the_request Do_def
          json_header_def split: sum.split prod.split)
  qed
qed

lemma sendRequest_fst:
  "fst (sendRequest L T ctx m u body w) =
     (case json_Encode L body of
        Inl err \<Rightarrow> Inl err
      | Inr buf \<Rightarrow>
          (case request_check L ctx m u of
             Some err \<Rightarrow> Inl err
           | None \<Rightarrow>
               (case T (HTTPClient (client w))
                   (the_request ctx (if m = [] then ''GET'' else m) u json_header (Some buf)) of
                  Inl err \<Rightarrow> Inl err
                | Inr resp \<Rightarrow>
                     if StatusCode resp < 200 \<or> 300 \<le> StatusCode resp then
                       Inl (HTTPStatusError (StatusCode resp) (Body resp))
                     else map_sum id fst (Decode_PromptResult L (Body resp)))))"
  by (simp add: sendRequest_eq split: sum.split option.split)

lemma sendRequest_snd:
  "snd (sendRequest L T ctx m u body w) =
     (case json_Encode L body of
        Inl err \<Rightarrow> w
      | Inr buf \<Rightarrow>
          (case request_check L ctx m u of
             Some err \<Rightarrow> w
           | None \<Rightarrow> w\<lparr>wire := wire w @
               [the_request ctx (if m = [] then ''GET'' else m) u json_header (Some buf)]\<rparr>))"
  by (simp add: sendRequest_eq split: sum.split option.split)

lemma sendChatRequest_eq:
  "sendChatRequest L T ctx m u body w =
     (case json_Encode L body of
        Inl err \<Rightarrow> (Inl err, w)
      | Inr buf \<Rightarrow>
          (case request_check L ctx m u of
             Some err \<Rightarrow> (Inl err, w)
           | None \<Rightarrow>
               ((case T (HTTPClient (client w))
                    (the_request ctx (if m = [] then ''GET'' else m) u json_header (Some buf)) of
                   Inl err \<Rightarrow> Inl err
                 | Inr resp \<Rightarrow>
                     map_sum id fst (Decode_ModelResponse L (Body resp))),
                w\<lparr>wire := wire w @
                  [the_request ctx (if m = [] then ''GET'' else m) u json_header
                     (Some buf)]\<rparr>)))"
proof (cases "json_Encode L body")
  case (Inl err)
  then show ?thesis by (simp add: sendChatRequest_def)
next
  case enc: (Inr buf)
  show ?thesis
  proof (cases "request_check L ctx m u")
    case (Some err)
    with enc show ?thesis by (simp add: sendChatRequest_def NewRequestWithContext_Some)
  next
    case None
    with enc show ?thesis
      by (simp add: sendChatRequest_def NewRequestWithContext_None Header_Set_the_request Do_def
          json_header_def split: sum.split prod.split)
  qed
qed

lemma sendChatRequest_fst:
  "fst (sendChatRequest L T ctx m u body w) =
     (case json_Encode L body of
        Inl err \<Rightarrow> Inl err
      | Inr buf \<Rightarrow>
          (case request_check L ctx m u of
             Some err \<Rightarrow> Inl err
           | None \<Rightarrow>
               (case T (HTTPClient (client w))
                   (the_request ctx (if m = [] then ''GET'' else m) u json_header (Some buf)) of
                  Inl err \<Rightarrow> Inl err
                | Inr resp \<Rightarrow>
                     map_sum id fst (Decode_ModelResponse L (Body resp)))))"
  by (simp add: sendChatRequest_eq split: sum.split option.split)

lemma sendChatRequest_snd:
  "snd (sendChatRequest L T ctx m u body w) =
     (case json_Encode L body of
        Inl err \<Rightarrow> w
      | Inr buf \<Rightarrow>
          (case request_check L ctx m u of
             Some err \<Rightarrow> w
           | None \<Rightarrow> w\<lparr>wire := wire w @
               [the_request ctx (if m = [] then ''GET'' else m) u json_header (Some buf)]\<rparr>))"
  by (simp add: sendChatRequest_eq split: sum.split option.split)

lemma sendShowRequest_eq:
  "sendShowRequest L T ctx m u body w =
     (case json_Encode L body of
        Inl err \<Rightarrow> (Inl err, w)
      | Inr buf \<Rightarrow>
          (case request_check L ctx m u of
             Some err \<Rightarrow> (Inl err, w)
           | None \<Rightarrow>
               ((case T (HTTPClient (client w))
                    (the_request ctx (if m = [] then ''GET'' else m) u json_header (Some buf)) of
                   Inl err \<Rightarrow> Inl err
                 | Inr resp \<Rightarrow>
                     map_sum id fst (Decode_ModelInfoResult L (Body resp))),
                w\<lparr>wire := wire w @
                  [the_request ctx (if m = [] then ''GET'' else m) u json_header
                     (Some buf)]\<rparr>)))"
proof (cases "json_Encode L body")
  case (Inl err)
  then show ?thesis by (simp add: sendShowRequest_def)
next
  case enc: (Inr buf)
  show ?thesis
  proof (cases "request_check L ctx m u")
    case (Some err)
    with enc show ?thesis by (simp add: sendShowRequest_def NewRequestWithContext_Some)
  next
    case None
    with enc show ?thesis
      by (simp add: sendShowRequest_def NewRequestWithContext_None Header_Set_the_request Do_def
          json_header_def split: sum.split prod.split)
  qed
qed

lemma sendShowRequest_fst:
  "fst (sendShowRequest L T ctx m u body w) =
     (case json_Encode L body of
        Inl err \<Rightarrow> Inl err
      | Inr buf \<Rightarrow>
          (case request_check L ctx m u of
             Some err \<Rightarrow> Inl err
           | None \<Rightarrow>
               (case T (HTTPClient (client w))
                   (the_request ctx (if m = [] then ''GET'' else m) u json_header (Some buf)) of
                  Inl err \<Rightarrow> Inl err
                | Inr resp \<Rightarrow>
                     map_sum id fst (Decode_ModelInfoResult L (Body resp)))))"
  by (simp add: sendShowRequest_eq split: sum.split option.split)

lemma sendShowRequest_snd:
  "snd (sendShowRequest L T ctx m u body w) =
     (case json_Encode L body of
        Inl err \<Rightarrow> w
      | Inr buf \<Rightarrow>
          (case request_check L ctx m u of
             Some err \<Rightarrow> w
           | None \<Rightarrow> w\<lparr>wire := wire w @
               [the_request ctx (if m = [] then ''GET'' else m) u json_header (Some buf)]\<rparr>))"
  by (simp add: sendShowRequest_eq split: sum.split option.split)

lemma sendEmbedRequest_eq:
  "sendEmbedRequest L T ctx m u body w =
     (case json_Encode L body of
        Inl err \<Rightarrow> (Inl err, w)
      | Inr buf \<Rightarrow>
          (case request_check L ctx m u of
             Some err \<Rightarrow> (Inl err, w)
           | None \<Rightarrow>
               ((case T (HTTPClient (client w))
                    (the_request ctx (if m = [] then ''GET'' else m) u json_header (Some buf)) of
                   Inl err \<Rightarrow> Inl err
                 | Inr resp \<Rightarrow>
                     map_sum id fst (Decode_EmbedResult L (Body resp))),
                w\<lparr>wire := wire w @
                  [the_request ctx (if m = [] then ''GET'' else m) u json_header
                     (Some buf)]\<rparr>)))"
proof (cases "json_Encode L body")
  case (Inl err)
  then show ?thesis by (simp add: sendEmbedRequest_def)
next
  case enc: (Inr buf)
  show ?thesis
  proof (cases "request_check L ctx m u")
    case (Some err)
    with enc show ?thesis by (simp add: sendEmbedRequest_def NewRequestWithContext_Some)
  next
    case None
    with enc show ?thesis
      by (simp add: sendEmbedRequest_def NewRequestWithContext_None Header_Set_the_request Do_def
          json_header_def split: sum.split prod.split)
  qed
qed

lemma sendEmbedRequest_fst:
  "fst (sendEmbedRequest L T ctx m u body w) =
     (case json_Encode L body of
        Inl err \<Rightarrow> Inl err
      | Inr buf \<Rightarrow>
          (case request_check L ctx m u of
             Some err \<Rightarrow> Inl err
           | None \<Rightarrow>
               (case T (HTTPClient (client w))
                   (the_request ctx (if m = [] then ''GET'' else m) u json_header (Some buf)) of
                  Inl err \<Rightarrow> Inl err
                | Inr resp \<Rightarrow>
                     map_sum id fst (Decode_EmbedResult L (Body resp)))))"
  by (simp add: sendEmbedRequest_eq split: sum.split option.split)

lemma sendEmbedRequest_snd:
  "snd (sendEmbedRequest L T ctx m u body w) =
     (case json_Encode L body of
        Inl err \<Rightarrow> w
      | Inr buf \<Rightarrow>
          (case request_check L ctx m u of
             Some err \<Rightarrow> w
           | None \<Rightarrow> w\<lparr>wire := wire w @
               [the_request ctx (if m = [] then ''GET'' else m) u json_header (Some buf)]\<rparr>))"
  by (simp add: sendEmbedRequest_eq split: sum.split option.split)

section \<open>What the operations without a helper compute\<close>

lemma Version_eq:
  "Version L T ctx w =
     (case request_check L ctx ''GET'' (endpoint L w ''/api/version'') of
        Some err \<Rightarrow> (Inl err, w)
      | None \<Rightarrow>
          ((case T (HTTPClient (client w))
               (the_request ctx ''GET'' (endpoint L w ''/api/version'') [] None) of
              Inl err \<Rightarrow> Inl err
            | Inr resp \<Rightarrow> map_sum id fst (Decode_Version L (Body resp))),
           w\<lparr>wire := wire w @
             [the_request ctx ''GET'' (endpoint L w ''/api/version'') [] None]\<rparr>))"
proof (cases "request_check L ctx ''GET'' (endpoint L w ''/api/version'')")
  case (Some err)
  then show ?thesis
    by (simp add: Version_def endpoint_def Let_def NewRequestWithContext_Some)
next
  case None
  then show ?thesis
    by (simp add: Version_def endpoint_def Let_def NewRequestWithContext_None Do_def
        split: sum.split prod.split)
qed

lemma ListModels_eq:
  "ListModels L T ctx w =
     (case request_check L ctx ''GET'' (endpoint L w ''/api/tags'') of
        Some err \<Rightarrow> (Inl err, w)
      | None \<Rightarrow>
          ((case T (HTTPClient (client w))
               (the_request ctx ''GET'' (endpoint L w ''/api/tags'') [] None) of
              Inl err \<Rightarrow> Inl err
            | Inr resp \<Rightarrow> map_sum id fst (Decode_ModelList L (Body resp))),
           w\<lparr>wire := wire w @
             [the_request ctx ''GET'' (endpoint L w ''/api/tags'') [] None]\<rparr>))"
proof (cases "request_check L ctx ''GET'' (endpoint L w ''/api/tags'')")
  case (Some err)
  then show ?thesis
    by (simp add: ListModels_def endpoint_def Let_def NewRequestWithContext_Some)
next
  case None
  then show ?thesis
    by (simp add: ListModels_def endpoint_def Let_def NewRequestWithContext_None Do_def
        split: sum.split prod.split)
qed

lemma ProcessStatus_eq:
  "ProcessStatus L T ctx w =
     (case request_check L ctx ''GET'' (endpoint L w ''/api/ps'') of
        Some err \<Rightarrow> (Inl err, w)
      | None \<Rightarrow>
          ((case T (HTTPClient (client w))
               (the_request ctx ''GET'' (endpoint L w ''/api/ps'') [] None) of
              Inl err \<Rightarrow> Inl err
            | Inr resp \<Rightarrow> map_sum id fst (Decode_ModelProcessStatus L (Body resp))),
           w\<lparr>wire := wire w @
             [the_request ctx ''GET'' (endpoint L w ''/api/ps'') [] None]\<rparr>))"
proof (cases "request_check L ctx ''GET'' (endpoint L w ''/api/ps'')")
  case (Some err)
  then show ?thesis
    by (simp add: ProcessStatus_def endpoint_def Let_def NewRequestWithContext_Some)
next
  case None
  then show ?thesis
    by (simp add: ProcessStatus_def endpoint_def Let_def NewRequestWithContext_None Do_def
        split: sum.split prod.split)
qed

lemma CheckBlobExists_eq:
  "CheckBlobExists L T ctx digest w =
     (if Contains digest ''/'' \<or> Contains digest ''..'' then
        ((False, Some (InvalidDigest digest)), w)
      else
        (case request_check L ctx ''HEAD''
            (endpoint L w (''/api/blobs/'' @ PathEscape L digest)) of
           Some err \<Rightarrow> ((False, Some err), w)
         | None \<Rightarrow>
             ((case T (HTTPClient (client w))
                  (the_request ctx ''HEAD''
                     (endpoint L w (''/api/blobs/'' @ PathEscape L digest)) [] None) of
                 Inl err \<Rightarrow> (False, Some err)
               | Inr resp \<Rightarrow>
                   if StatusCode resp = 200 then (True, None)
                   else if StatusCode resp = 404 then (False, None)
                   else (False, Some (UnexpectedStatus (StatusCode resp)))),
              w\<lparr>wire := wire w @
                [the_request ctx ''HEAD''
                   (endpoint L w (''/api/blobs/'' @ PathEscape L digest)) [] None]\<rparr>)))"
proof (cases "request_check L ctx ''HEAD''
    (endpoint L w (''/api/blobs/'' @ PathEscape L digest))")
  case (Some err)
  then show ?thesis
    by (simp add: CheckBlobExists_def endpoint_def Let_def NewRequestWithContext_Some)
next
  case None
  then show ?thesis
    by (simp add: CheckBlobExists_def endpoint_def Let_def NewRequestWithContext_None Do_def
        split: sum.split prod.split)
qed

lemma PushBlob_eq:
  "PushBlob L T ctx digest file w =
     (case request_check L ctx ''POST'' (endpoint L w (path_Join L ''/api/blobs'' digest)) of
        Some err \<Rightarrow> (Some err, w)
      | None \<Rightarrow>
          ((case T (HTTPClient (client w))
               (the_request ctx ''POST'' (endpoint L w (path_Join L ''/api/blobs'' digest))
                  [(''Content-Type'', ''application/octet-stream'')] (Some file)) of
              Inl err \<Rightarrow> Some err
            | Inr resp \<Rightarrow>
                if StatusCode resp \<noteq> 201 then Some (PushBlobFailed (Body resp)) else None),
           w\<lparr>wire := wire w @
             [the_request ctx ''POST'' (endpoint L w (path_Join L ''/api/blobs'' digest))
                [(''Content-Type'', ''application/octet-stream'')] (Some file)]\<rparr>))"
proof (cases "request_check L ctx ''POST'' (endpoint L w (path_Join L ''/api/blobs'' digest))")
  case (Some err)
  then show ?thesis
    by (simp add: PushBlob_def endpoint_def Let_def NewRequestWithContext_Some)
next
  case None
  then show ?thesis
    by (simp add: PushBlob_def endpoint_def Let_def NewRequestWithContext_None Do_def
        Header_Set_the_request split: sum.split prod.split)
qed

lemma NewRequestWithContext_Inr:
  "NewRequestWithContext L ctx m u b = Inr req \<Longrightarrow>
   request_check L ctx m u = None \<and> req = the_request ctx (if m = [] then ''GET'' else m) u [] b"
  by (auto simp: NewRequestWithContext_def the_request_def split: option.splits)

section \<open>Validation before generation\<close>

lemma check_ints_None: "check_ints idx vs = None \<longleftrightarrow> list_all is_int vs"
  by (induction vs arbitrary: idx) (auto simp: is_int_def split: goval.splits)

lemma ValidatePromptInfo_None:
  "ValidatePromptInfo req = None \<longleftrightarrow>
   spec_Format_ok (pi_Format req) \<and> spec_Context_ok (pi_Context req)"
  by (cases "pi_Format req"; cases "pi_Context req")
    (simp_all add: ValidatePromptInfo_def spec_Format_ok_def spec_Context_ok_def
      check_ints_None)

text \<open>
  Claim C2. \<open>Generate\<close> validates before it sends: when \<open>ValidatePromptInfo\<close> rejects
  the request, \<open>Generate\<close> returns that error and nothing goes on the wire. And
  \<open>ValidatePromptInfo\<close> returns \<open>nil\<close> exactly when \<open>Format\<close> is \<open>nil\<close>, a string or
  a \<open>map[string]interface{}\<close> and \<open>Context\<close> is \<open>nil\<close>, a \<open>[]int\<close> or a
  \<open>[]interface{}\<close> of \<open>int\<close>s.
\<close>

theorem Generate_validates_first:
  "(\<forall>err. ValidatePromptInfo req = Some err \<longrightarrow>
      fst (Generate L T ctx req w) = Inl err \<and> sent w (snd (Generate L T ctx req w)) = []) \<and>
   (ValidatePromptInfo req = None \<longleftrightarrow>
      spec_Format_ok (pi_Format req) \<and> spec_Context_ok (pi_Context req))"
  by (simp add: Generate_def ValidatePromptInfo_None)

theorem Generate_validates_first_witness:
  "ValidatePromptInfo (zero_PromptInfo\<lparr>pi_Format := GoInt 5\<rparr>) = Some InvalidFormatType \<and>
   fst (Generate sample_lib (answers \<lparr>StatusCode = 200, Body = []\<rparr>) (Context ''bg'')
          (zero_PromptInfo\<lparr>pi_Format := GoInt 5\<rparr>) w0) = Inl InvalidFormatType \<and>
   sent w0 (snd (Generate sample_lib (answers \<lparr>StatusCode = 200, Body = []\<rparr>) (Context ''bg'')
          (zero_PromptInfo\<lparr>pi_Format := GoInt 5\<rparr>) w0)) = [] \<and>
   ValidatePromptInfo (zero_PromptInfo\<lparr>pi_Context := GoIfaceSlice [GoInt 1, GoString ''2'']\<rparr>)
     = Some (InvalidContextIndex 1) \<and>
   ValidatePromptInfo (zero_PromptInfo\<lparr>pi_Context := GoIfaceSlice [GoInt 1, GoInt 2]\<rparr>) = None"
proof -
  have v: "ValidatePromptInfo (zero_PromptInfo\<lparr>pi_Format := GoInt 5\<rparr>) = Some InvalidFormatType"
    by (simp add: ValidatePromptInfo_def zero_PromptInfo_def)
  from Generate_validates_first [of "zero_PromptInfo\<lparr>pi_Format := GoInt 5\<rparr>" sample_lib
      "answers \<lparr>StatusCode = 200, Body = []\<rparr>" "Context ''bg''" w0] v
  have "fst (Generate sample_lib (answers \<lparr>StatusCode = 200, Body = []\<rparr>) (Context ''bg'')
          (zero_PromptInfo\<lparr>pi_Format := GoInt 5\<rparr>) w0) = Inl InvalidFormatType \<and>
   sent w0 (snd (Generate sample_lib (answers \<lparr>StatusCode = 200, Body = []\<rparr>) (Context ''bg'')
          (zero_PromptInfo\<lparr>pi_Format := GoInt 5\<rparr>) w0)) = []"
    by blast
  moreover have "ValidatePromptInfo
      (zero_PromptInfo\<lparr>pi_Context := GoIfaceSlice [GoInt 1, GoString ''2'']\<rparr>)
     = Some (InvalidContextIndex 1)"
    by (simp add: ValidatePromptInfo_def zero_PromptInfo_def)
  moreover have "ValidatePromptInfo
      (zero_PromptInfo\<lparr>pi_Context := GoIfaceSlice [GoInt 1, GoInt 2]\<rparr>) = None"
    by (simp add: ValidatePromptInfo_def zero_PromptInfo_def)
  ultimately show ?thesis using v by blast
qed

section \<open>The status check of the helpers\<close>

text \<open>
  Claim C3. Once the server has answered, \<open>sendRequest\<close> returns an error for every
  status outside [200, 300), and the message of the error ends with the response body;
  \<open>sendChatRequest\<close>, \<open>sendShowRequest\<close> and \<open>sendEmbedRequest\<close> return the decoded
  value whenever the body decodes, whatever the status.
\<close>

theorem status_checked_by_sendRequest_only:
  assumes enc: "json_Encode L body = Inr buf"
    and req: "NewRequestWithContext L ctx m u (Some buf) = Inr req"
    and srv: "T (HTTPClient (client w)) (Header_Set req ''Content-Type'' ''application/json'')
                = Inr resp"
  shows "(StatusCode resp < 200 \<or> 300 \<le> StatusCode resp \<longrightarrow>
            fst (sendRequest L T ctx m u body w)
              = Inl (HTTPStatusError (StatusCode resp) (Body resp)) \<and>
            suffix (Body resp) (Error (HTTPStatusError (StatusCode resp) (Body resp)))) \<and>
         (\<forall>v d. Decode_ModelResponse L (Body resp) = Inr (v, d) \<longrightarrow>
            fst (sendChatRequest L T ctx m u body w) = Inr v) \<and>
         (\<forall>v d. Decode_ModelInfoResult L (Body resp) = Inr (v, d) \<longrightarrow>
            fst (sendShowRequest L T ctx m u body w) = Inr v) \<and>
         (\<forall>v d. Decode_EmbedResult L (Body resp) = Inr (v, d) \<longrightarrow>
            fst (sendEmbedRequest L T ctx m u body w) = Inr v)"
proof -
  from NewRequestWithContext_Inr [OF req]
  have chk: "request_check L ctx m u = None"
    and r: "req = the_request ctx (if m = [] then ''GET'' else m) u [] (Some buf)"
    by simp_all
  from srv r have t: "T (HTTPClient (client w))
      (the_request ctx (if m = [] then ''GET'' else m) u json_header (Some buf)) = Inr resp"
    by (simp add: Header_Set_the_request json_header_def)
  have "suffix (Body resp) (Error (HTTPStatusError (StatusCode resp) (Body resp)))"
    by (simp add: suffix_def)
  moreover have "StatusCode resp < 200 \<or> 300 \<le> StatusCode resp \<Longrightarrow>
      fst (sendRequest L T ctx m u body w) = Inl (HTTPStatusError (StatusCode resp) (Body resp))"
    using enc chk t by (simp add: sendRequest_fst)
  moreover have "fst (sendChatRequest L T ctx m u body w) = Inr v"
    if "Decode_ModelResponse L (Body resp) = Inr (v, d)" for v d
    using enc chk t that by (simp add: sendChatRequest_fst)
  moreover have "fst (sendShowRequest L T ctx m u body w) = Inr v"
    if "Decode_ModelInfoResult L (Body resp) = Inr (v, d)" for v d
    using enc chk t that by (simp add: sendShowRequest_fst)
  moreover have "fst (sendEmbedRequest L T ctx m u body w) = Inr v"
    if "Decode_EmbedResult L (Body resp) = Inr (v, d)" for v d
    using enc chk t that by (simp add: sendEmbedRequest_fst)
  ultimately show ?thesis by blast
qed

lemmas sample_eval =
  sample_lib_def sample_json_Encode_def sample_More_def decode_string_field_def decode_with_def
  object_def quote_def is_space_def answers_def status_line_def

theorem status_checked_by_sendRequest_only_witness:
  "fst (sendRequest sample_lib
          (answers \<lparr>StatusCode = 500, Body = object [(''model'', quote ''llama3'')]\<rparr>)
          (Context ''bg'') ''POST'' ''http://localhost:11434/api/generate''
          (MapStringString [(''model'', ''llama3'')]) w0)
     = Inl (HTTPStatusError 500 (object [(''model'', quote ''llama3'')])) \<and>
   Error (HTTPStatusError 500 (object [(''model'', quote ''llama3'')]))
     = ''HTTP request failed with status 500: '' @ object [(''model'', quote ''llama3'')] \<and>
   fst (sendChatRequest sample_lib
          (answers \<lparr>StatusCode = 500, Body = object [(''model'', quote ''llama3'')]\<rparr>)
          (Context ''bg'') ''POST'' ''http://localhost:11434/api/chat''
          (MapStringString [(''model'', ''llama3'')]) w0)
     = Inr ''llama3'' \<and>
   fst (sendShowRequest sample_lib
          (answers \<lparr>StatusCode = 404, Body = object [(''modelfile'', quote ''FROM llama3'')]\<rparr>)
          (Context ''bg'') ''POST'' ''http://localhost:11434/api/show''
          (MapStringString [(''model'', ''llama3'')]) w0)
     = Inr \<lparr>mi_Modelfile = ''FROM llama3'', mi_Parameters = [], mi_Template = [],
            mi_Details = [], mi_ModelInfo = []\<rparr> \<and>
   fst (sendEmbedRequest sample_lib
          (answers \<lparr>StatusCode = 500, Body = object [(''model'', quote ''llama3'')]\<rparr>)
          (Context ''bg'') ''POST'' ''http://localhost:11434/api/embed''
          (MapStringString [(''model'', ''llama3'')]) w0)
     = Inr \<lparr>er_Model = ''llama3'', er_CreatedAt = Instant 0, er_Embedding = GoNil\<rparr>"
proof -
  let ?b = "object [(''model'', quote ''llama3'')]"
  let ?r = "\<lparr>StatusCode = 500, Body = ?b\<rparr>"
  let ?b2 = "object [(''modelfile'', quote ''FROM llama3'')]"
  let ?r2 = "\<lparr>StatusCode = 404, Body = ?b2\<rparr>"
  have srv: "answers r (HTTPClient (client w0)) q = Inr r" for r q
    by (simp add: answers_def)
  have chat: "Decode_ModelResponse sample_lib (Body ?r) = Inr (''llama3'', [])"
    and embed: "Decode_EmbedResult sample_lib (Body ?r)
      = Inr (\<lparr>er_Model = ''llama3'', er_CreatedAt = Instant 0, er_Embedding = GoNil\<rparr>, [])"
    and show': "Decode_ModelInfoResult sample_lib (Body ?r2)
      = Inr (\<lparr>mi_Modelfile = ''FROM llama3'', mi_Parameters = [], mi_Template = [],
            mi_Details = [], mi_ModelInfo = []\<rparr>, [])"
    by (simp_all add: sample_eval)
  have bad: "StatusCode ?r < 200 \<or> 300 \<le> StatusCode ?r"
    by simp
  have msg: "Error (HTTPStatusError 500 ?b) = ''HTTP request failed with status 500: '' @ ?b"
    by (simp add: itoa_def dec_digits.simps)
  note t = status_checked_by_sendRequest_only [where L = sample_lib and w = w0
      and T = "answers ?r" and resp = ?r, OF sample_encode_model sample_request srv]
  note t2 = status_checked_by_sendRequest_only [where L = sample_lib and w = w0
      and T = "answers ?r2" and resp = ?r2, OF sample_encode_model sample_request srv]
  have 1: "fst (sendRequest sample_lib (answers ?r)
          (Context ''bg'') ''POST'' ''http://localhost:11434/api/generate''
          (MapStringString [(''model'', ''llama3'')]) w0) = Inl (HTTPStatusError 500 ?b)"
    using t [THEN conjunct1, rule_format, OF bad] by simp
  have 2: "fst (sendChatRequest sample_lib (answers ?r)
          (Context ''bg'') ''POST'' ''http://localhost:11434/api/chat''
          (MapStringString [(''model'', ''llama3'')]) w0) = Inr ''llama3''"
    by (rule t [THEN conjunct2, THEN conjunct1, rule_format, OF chat])
  have 3: "fst (sendShowRequest sample_lib (answers ?r2)
          (Context ''bg'') ''POST'' ''http://localhost:11434/api/show''
          (MapStringString [(''model'', ''llama3'')]) w0)
     = Inr \<lparr>mi_Modelfile = ''FROM llama3'', mi_Parameters = [], mi_Template = [],
            mi_Details = [], mi_ModelInfo = []\<rparr>"
    by (rule t2 [THEN conjunct2, THEN conjunct2, THEN conjunct1, rule_format, OF show'])
  have 4: "fst (sendEmbedRequest sample_lib (answers ?r)
          (Context ''bg'') ''POST'' ''http://localhost:11434/api/embed''
          (MapStringString [(''model'', ''llama3'')]) w0)
     = Inr \<lparr>er_Model = ''llama3'', er_CreatedAt = Instant 0, er_Embedding = GoNil\<rparr>"
    by (rule t [THEN conjunct2, THEN conjunct2, THEN conjunct2, rule_format, OF embed])
  from 1 msg 2 3 4 show ?thesis by blast
qed

section \<open>NewClient\<close>

lemma minutes_no_overflow:
  assumes "0 \<le> sint minutes" and "sint minutes \<le> 153722867"
  shows "sint (minutes * Minute) = sint minutes * 60000000000"
proof -
  have m: "sint Minute = 60000000000"
    by (simp add: Minute_def)
  have "sint (minutes * Minute) = signed_take_bit 63 (sint minutes * sint Minute)"
    by (simp add: sint_word_ariths)
  also have "\<dots> = sint minutes * sint Minute"
    using assms by (intro signed_take_bit_int_eq_self) (simp_all add: m)
  finally show ?thesis by (simp add: m)
qed

text \<open>
  Claim C10. \<open>NewClient\<close> fails exactly when the base URL does not parse. Otherwise
  the client holds the parsed URL and the timeout \<open>minutes * time.Minute\<close>, the
  product of \<open>int64\<close>; as long as it does not overflow, that is \<open>minutes\<close> minutes in
  nanoseconds.
\<close>

theorem NewClient_parses_and_sets_timeout:
  "(isl (NewClient L baseURL minutes) \<longleftrightarrow> isl (url_Parse L baseURL)) \<and>
   (\<forall>parsed. url_Parse L baseURL = Inr parsed \<longrightarrow>
      (\<exists>c. NewClient L baseURL minutes = Inr c \<and> BaseURL c = parsed \<and>
         Timeout (HTTPClient c) = minutes * Minute \<and>
         (0 \<le> sint minutes \<and> sint minutes \<le> 153722867 \<longrightarrow>
            sint (Timeout (HTTPClient c)) = sint minutes * 60000000000)))"
  by (cases "url_Parse L baseURL") (simp_all add: NewClient_def minutes_no_overflow)

theorem NewClient_parses_and_sets_timeout_witness:
  "NewClient sample_lib ''http://localhost:11434'' 12
     = Inr \<lparr>BaseURL = ''http://localhost:11434'', HTTPClient = \<lparr>Timeout = 720000000000\<rparr>\<rparr> \<and>
   sint (12 * Minute) = 12 * 60000000000 \<and>
   isl (NewClient sample_lib '':11434'' 12)"
proof -
  have p: "url_Parse sample_lib ''http://localhost:11434'' = Inr ''http://localhost:11434''"
    and q: "isl (url_Parse sample_lib '':11434'')"
    by (simp_all add: sample_lib_def)
  have r: "0 \<le> sint (12 :: 64 word) \<and> sint (12 :: 64 word) \<le> 153722867"
    by simp
  from NewClient_parses_and_sets_timeout [of sample_lib "''http://localhost:11434''" 12] p r
  obtain c where c: "NewClient sample_lib ''http://localhost:11434'' 12 = Inr c"
    "BaseURL c = ''http://localhost:11434''" "Timeout (HTTPClient c) = 12 * Minute"
    "sint (Timeout (HTTPClient c)) = sint (12 :: 64 word) * 60000000000"
    by blast
  have "c = \<lparr>BaseURL = ''http://localhost:11434'', HTTPClient = \<lparr>Timeout = 720000000000\<rparr>\<rparr>"
    using c(2,3) by (cases c, cases "HTTPClient c") (simp add: Minute_def)
  moreover have "sint (12 * Minute) = 12 * 60000000000"
    using c(3,4) by simp
  moreover have "isl (NewClient sample_lib '':11434'' 12)"
    using NewClient_parses_and_sets_timeout [of sample_lib "'':11434''" 12] q by blast
  ultimately show ?thesis using c(1) by simp
qed

end
